theory Spec2Isabelle
  imports Main
begin

section \<open>Syntax-tree nodes as JavaScript objects\<close>

text \<open>
  The functions of \<^verbatim>\<open>lib/tree.js\<close> read syntax-tree nodes built by a parser. A node is a
  JavaScript object; nodes refer to each other (children, and the \<^verbatim>\<open>parent\<close> back link), and
  \<^verbatim>\<open>isParameter\<close> compares nodes by identity. So nodes live in a store, addressed by a
  reference, and a JavaScript value is \<^verbatim>\<open>undefined\<close>, \<^verbatim>\<open>null\<close>, a boolean, a string or a
  reference to a node object. On these values \<^verbatim>\<open>===\<close> is HOL equality: two references are
  equal exactly when they are the same address.
\<close>

type_synonym ref = nat

datatype val = Undefined | Null | Bool bool | Str string | Ref ref

text \<open>
  A node object carries the properties that \<^verbatim>\<open>tree.js\<close> reads. A property the object does
  not have reads as \<^verbatim>\<open>undefined\<close>. The two array-valued properties hold \<open>Some\<close> list of
  values when they are arrays and \<open>None\<close> when the object has no array there.
\<close>

record node =
  node_type :: val
  name :: val
  callee :: val
  computed :: val
  object :: val
  property :: val
  node_id :: val
  parent :: val
  left :: val
  right :: val
  init :: val
  node_value :: val
  consequent :: val
  alternate :: val
  body :: val
  arguments :: "val list option"
  elements :: "val list option"

type_synonym heap = "ref \<Rightarrow> node"

datatype error = TypeError

text \<open>Sequencing of a computation that may throw.\<close>

definition bindE :: "error + 'a \<Rightarrow> ('a \<Rightarrow> error + 'b) \<Rightarrow> error + 'b" where
  "bindE m f = (case m of Inl e \<Rightarrow> Inl e | Inr x \<Rightarrow> f x)"

text \<open>
  Property access \<^verbatim>\<open>v.p\<close>: a \<^verbatim>\<open>TypeError\<close> on \<^verbatim>\<open>undefined\<close> and \<^verbatim>\<open>null\<close>, the
  stored value on an object, and \<^verbatim>\<open>undefined\<close> on a string or a boolean (none of the
  properties read here exists on those).
\<close>

fun get :: "heap \<Rightarrow> val \<Rightarrow> (node \<Rightarrow> val) \<Rightarrow> error + val" where
  "get h Undefined p = Inl TypeError"
| "get h Null p = Inl TypeError"
| "get h (Bool b) p = Inr Undefined"
| "get h (Str s) p = Inr Undefined"
| "get h (Ref r) p = Inr (p (h r))"

text \<open>\<^verbatim>\<open>ToBoolean\<close>, as applied by \<^verbatim>\<open>if\<close>, \<^verbatim>\<open>&&\<close>, \<^verbatim>\<open>!\<close> and \<^verbatim>\<open>?:\<close>.\<close>

fun truthy :: "val \<Rightarrow> bool" where
  "truthy Undefined = False"
| "truthy Null = False"
| "truthy (Bool b) = b"
| "truthy (Str s) = (s \<noteq> [])"
| "truthy (Ref r) = True"

text \<open>\<^verbatim>\<open>ToString\<close>; a parser's node object has no \<^verbatim>\<open>toString\<close> of its own.\<close>

fun to_string :: "val \<Rightarrow> string" where
  "to_string Undefined = ''undefined''"
| "to_string Null = ''null''"
| "to_string (Bool b) = (if b then ''true'' else ''false'')"
| "to_string (Str s) = s"
| "to_string (Ref r) = ''[object Object]''"

text \<open>
  \<^verbatim>\<open>Array.prototype.join\<close>: an element that is \<^verbatim>\<open>undefined\<close> or \<^verbatim>\<open>null\<close> contributes the
  empty string, any other element its \<^verbatim>\<open>ToString\<close>.
\<close>

fun join_elem :: "val \<Rightarrow> string" where
  "join_elem Undefined = []"
| "join_elem Null = []"
| "join_elem v = to_string v"

fun join :: "string \<Rightarrow> val list \<Rightarrow> string" where
  "join sep [] = []"
| "join sep [x] = join_elem x"
| "join sep (x # y # ys) = join_elem x @ sep @ join sep (y # ys)"

text \<open>
  \<^verbatim>\<open>xs.forEach(function (a) { if (a === node) flag = true; })\<close> starting from
  \<^verbatim>\<open>flag = false\<close>: the callback runs on every element in order.
\<close>

definition forEach_flag :: "val \<Rightarrow> val list \<Rightarrow> bool" where
  "forEach_flag node xs = foldl (\<lambda>flag a. if a = node then True else flag) False xs"

section \<open>The functions of \<^verbatim>\<open>lib/tree.js\<close>\<close>

definition getIdentifier :: "heap \<Rightarrow> val \<Rightarrow> error + val" where
  "getIdentifier h node0 =
     bindE (get h node0 node_type) (\<lambda>t0.
     bindE (if t0 = Str ''CallExpression'' then get h node0 callee else Inr node0) (\<lambda>node1.
     bindE (get h node1 node_type) (\<lambda>t1.
     bindE (if t1 = Str ''MemberExpression''
            then bindE (get h node1 computed) (\<lambda>c.
                   if truthy c then get h node1 object else get h node1 property)
            else Inr node1) (\<lambda>node2.
     bindE (get h node2 node_type) (\<lambda>t2.
       if t2 \<noteq> Str ''Identifier'' then Inr Null else Inr node2)))))"

definition getNodeName :: "heap \<Rightarrow> val \<Rightarrow> error + val" where
  "getNodeName h node0 =
     bindE (get h node0 node_type) (\<lambda>t.
       if t = Str ''ThisExpression'' then Inr (Str ''this'')
       else bindE (getIdentifier h node0) (\<lambda>ident.
              if truthy ident then get h ident name else Inr (Str [])))"

text \<open>
  The \<^verbatim>\<open>while\<close> loop of \<^verbatim>\<open>getFullItemName\<close>, with the array \<^verbatim>\<open>name\<close> as accumulator
  (\<^verbatim>\<open>push\<close> appends). It follows \<^verbatim>\<open>object\<close> links for as long as it meets member
  expressions; on a store where these links form a cycle it does not return, which is the
  value \<open>None\<close>.
\<close>

partial_function (option) fullNameLoop :: "heap \<Rightarrow> val \<Rightarrow> val list \<Rightarrow> (error + val list \<times> val) option"
  where
  "fullNameLoop h func acc =
     (case get h func node_type of
        Inl e \<Rightarrow> Some (Inl e)
      | Inr t \<Rightarrow>
          if t = Str ''MemberExpression'' then
            (case bindE (get h func property) (\<lambda>p. get h p name) of
               Inl e \<Rightarrow> Some (Inl e)
             | Inr nm \<Rightarrow>
                 (case get h func object of
                    Inl e \<Rightarrow> Some (Inl e)
                  | Inr ob \<Rightarrow> fullNameLoop h ob (acc @ [nm])))
          else Some (Inr (acc, func)))"

definition getFullItemName :: "heap \<Rightarrow> val \<Rightarrow> (error + val) option" where
  "getFullItemName h func0 =
     (case bindE (get h func0 node_type) (\<lambda>t0.
             if t0 = Str ''CallExpression'' then get h func0 callee else Inr func0) of
        Inl e \<Rightarrow> Some (Inl e)
      | Inr func1 \<Rightarrow>
          (case fullNameLoop h func1 [] of
             None \<Rightarrow> None
           | Some (Inl e) \<Rightarrow> Some (Inl e)
           | Some (Inr (acc, func2)) \<Rightarrow>
               Some (bindE (get h func2 node_type) (\<lambda>t2.
                     bindE (if t2 = Str ''Identifier''
                            then bindE (get h func2 name) (\<lambda>nm. Inr (acc @ [nm]))
                            else Inr acc) (\<lambda>acc'.
                       Inr (Str (join ''.'' (rev acc'))))))))"

definition getPartialItemName :: "heap \<Rightarrow> val \<Rightarrow> error + val" where
  "getPartialItemName h func0 =
     bindE (get h func0 node_type) (\<lambda>t0.
     bindE (if t0 = Str ''CallExpression'' then get h func0 callee else Inr func0) (\<lambda>func1.
     bindE (get h func1 node_type) (\<lambda>t1.
       let isMember = (t1 = Str ''MemberExpression'') in
       bindE (getIdentifier h func1) (\<lambda>ident.
         if \<not> truthy ident then Inr Undefined
         else bindE (get h ident name) (\<lambda>nm.
                Inr (Str ((if isMember then ''.'' else []) @ to_string nm)))))))"

text \<open>
  The \<^verbatim>\<open>while\<close> loop of \<^verbatim>\<open>getParentFunctionIdentifier\<close>: it leaves \<^verbatim>\<open>func\<close> at the first
  value that is falsy or a function node. On a store whose \<^verbatim>\<open>parent\<close> links form a cycle
  without a function node it does not return.
\<close>

partial_function (option) closestFunction :: "heap \<Rightarrow> val \<Rightarrow> (error + val) option"
  where
  "closestFunction h func =
     (if truthy func then
        (case get h func node_type of
           Inl e \<Rightarrow> Some (Inl e)
         | Inr t \<Rightarrow>
             if t \<noteq> Str ''FunctionExpression'' \<and> t \<noteq> Str ''FunctionDeclaration'' \<and>
                t \<noteq> Str ''ArrowFunctionExpression''
             then (case get h func parent of
                     Inl e \<Rightarrow> Some (Inl e)
                   | Inr p \<Rightarrow> closestFunction h p)
             else Some (Inr func))
      else Some (Inr func))"

text \<open>\<^verbatim>\<open>v && v.type === s\<close>: the access is made on a truthy value only, so it cannot throw.\<close>

definition is_of_type :: "heap \<Rightarrow> val \<Rightarrow> string \<Rightarrow> bool" where
  "is_of_type h v s = (truthy v \<and> get h v node_type = Inr (Str s))"

definition getParentFunctionIdentifier :: "heap \<Rightarrow> val \<Rightarrow> (error + val) option" where
  "getParentFunctionIdentifier h node0 =
     (case closestFunction h node0 of
        None \<Rightarrow> None
      | Some (Inl e) \<Rightarrow> Some (Inl e)
      | Some (Inr func) \<Rightarrow>
          Some (bindE (get h func node_id) (\<lambda>i.
                  if truthy i then Inr i
                  else bindE (get h func parent) (\<lambda>p.
                         if is_of_type h p ''VariableDeclarator'' then get h p node_id
                         else if is_of_type h p ''AssignmentExpression'' then get h p left
                         else Inr Null))))"

text \<open>
  \<^verbatim>\<open>expr.p.forEach(...)\<close> for an array-valued property \<^verbatim>\<open>p\<close>: the call throws a
  \<^verbatim>\<open>TypeError\<close> when \<^verbatim>\<open>expr.p\<close> is not an array (it has no \<^verbatim>\<open>forEach\<close> then).
\<close>

fun get_array :: "heap \<Rightarrow> val \<Rightarrow> (node \<Rightarrow> val list option) \<Rightarrow> error + val list" where
  "get_array h (Ref r) p = (case p (h r) of None \<Rightarrow> Inl TypeError | Some xs \<Rightarrow> Inr xs)"
| "get_array h v p = Inl TypeError"

definition isParameter :: "heap \<Rightarrow> val \<Rightarrow> val \<Rightarrow> error + bool" where
  "isParameter h node0 expr =
     bindE (get h expr node_type) (\<lambda>t.
       if t = Str ''CallExpression'' then
         bindE (get_array h expr arguments) (\<lambda>args. Inr (forEach_flag node0 args))
       else if t = Str ''AssignmentExpression'' then
         bindE (get h expr right) (\<lambda>r. Inr (r = node0))
       else if t = Str ''VariableDeclarator'' then
         bindE (get h expr init) (\<lambda>i. Inr (i = node0))
       else if t = Str ''Property'' then
         bindE (get h expr node_value) (\<lambda>v. Inr (v = node0))
       else if t = Str ''ArrayExpression'' then
         bindE (get_array h expr elements) (\<lambda>es. Inr (forEach_flag node0 es))
       else if t = Str ''FunctionExpression'' then
         Inr False
       else if t = Str ''ConditionalExpression'' then
         bindE (get h expr alternate) (\<lambda>a.
           if node0 = a then Inr True
           else bindE (get h expr consequent) (\<lambda>c. Inr (node0 = c)))
       else if t = Str ''ArrowFunctionExpression'' then
         bindE (get h expr body) (\<lambda>b. Inr (node0 = b))
       else Inr True)"

section \<open>The unwrap steps as the specification words them\<close>

text \<open>
  The specification describes \<^verbatim>\<open>getIdentifier\<close> by two unwrap steps, applied in order: a
  call expression is replaced by its \<^verbatim>\<open>callee\<close>; then a member expression is replaced by
  its \<^verbatim>\<open>object\<close> if \<^verbatim>\<open>computed\<close>, and by its \<^verbatim>\<open>property\<close> otherwise.
\<close>

definition unwrap_call :: "heap \<Rightarrow> val \<Rightarrow> error + val" where
  "unwrap_call h n =
     bindE (get h n node_type) (\<lambda>t.
       if t = Str ''CallExpression'' then get h n callee else Inr n)"

definition unwrap_member :: "heap \<Rightarrow> val \<Rightarrow> error + val" where
  "unwrap_member h n =
     bindE (get h n node_type) (\<lambda>t.
       if t = Str ''MemberExpression''
       then bindE (get h n computed) (\<lambda>c.
              if truthy c then get h n object else get h n property)
       else Inr n)"

definition unwrap_steps :: "heap \<Rightarrow> val \<Rightarrow> error + val" where
  "unwrap_steps h n = bindE (unwrap_call h n) (unwrap_member h)"

section \<open>Shapes of trees\<close>

text \<open>
  In a tree built by the parser, the child slots of a call and of a member expression hold
  nodes: \<^verbatim>\<open>callee\<close>, \<^verbatim>\<open>object\<close> and \<^verbatim>\<open>property\<close> are never missing.
\<close>

fun is_ref :: "val \<Rightarrow> bool" where
  "is_ref (Ref r) = True"
| "is_ref v = False"

definition wf_node :: "node \<Rightarrow> bool" where
  "wf_node x =
     ((node_type x = Str ''CallExpression'' \<longrightarrow> is_ref (callee x)) \<and>
      (node_type x = Str ''MemberExpression'' \<longrightarrow> is_ref (object x) \<and> is_ref (property x)))"

definition wf_heap :: "heap \<Rightarrow> bool" where
  "wf_heap h = (\<forall>r. wf_node (h r))"

text \<open>
  \<open>member_chain h v rs b\<close>: starting at \<open>v\<close>, the member expressions at \<open>rs\<close> are met in this
  order along \<^verbatim>\<open>object\<close> links, each with a \<^verbatim>\<open>property\<close> node, and the links end at the
  node \<open>b\<close>, which is not a member expression.
\<close>

fun member_chain :: "heap \<Rightarrow> val \<Rightarrow> ref list \<Rightarrow> ref \<Rightarrow> bool" where
  "member_chain h v [] b = (v = Ref b \<and> node_type (h b) \<noteq> Str ''MemberExpression'')"
| "member_chain h v (r # rs) b =
     (v = Ref r \<and> node_type (h r) = Str ''MemberExpression'' \<and> is_ref (property (h r)) \<and>
      member_chain h (object (h r)) rs b)"

text \<open>The value of \<^verbatim>\<open>m.property.name\<close> for the member expression at \<open>r\<close>.\<close>

definition property_name :: "heap \<Rightarrow> ref \<Rightarrow> val" where
  "property_name h r = (case property (h r) of Ref p \<Rightarrow> name (h p) | _ \<Rightarrow> Undefined)"

text \<open>What the base node of a chain contributes: its name when it is an identifier.\<close>

definition base_segment :: "heap \<Rightarrow> ref \<Rightarrow> val list" where
  "base_segment h b = (if node_type (h b) = Str ''Identifier'' then [name (h b)] else [])"

definition is_function_type :: "val \<Rightarrow> bool" where
  "is_function_type t =
     (t = Str ''FunctionExpression'' \<or> t = Str ''FunctionDeclaration'' \<or>
      t = Str ''ArrowFunctionExpression'')"

text \<open>
  \<open>ancestors_to h v rs f\<close>: starting at \<open>v\<close> and following \<^verbatim>\<open>parent\<close> links, the nodes at
  \<open>rs\<close> are met in this order, none of them a function, and then the function node \<open>f\<close>.
\<close>

fun ancestors_to :: "heap \<Rightarrow> val \<Rightarrow> ref list \<Rightarrow> ref \<Rightarrow> bool" where
  "ancestors_to h v [] f = (v = Ref f \<and> is_function_type (node_type (h f)))"
| "ancestors_to h v (r # rs) f =
     (v = Ref r \<and> \<not> is_function_type (node_type (h r)) \<and> ancestors_to h (parent (h r)) rs f)"

text \<open>
  \<open>off_root h v rs\<close>: starting at \<open>v\<close> and following \<^verbatim>\<open>parent\<close> links, the nodes at \<open>rs\<close>
  are met in this order, none of them a function, and the last link read is \<^verbatim>\<open>undefined\<close>
  or \<^verbatim>\<open>null\<close>: the walk runs off the root.
\<close>

fun off_root :: "heap \<Rightarrow> val \<Rightarrow> ref list \<Rightarrow> bool" where
  "off_root h v [] = (v = Undefined \<or> v = Null)"
| "off_root h v (r # rs) =
     (v = Ref r \<and> \<not> is_function_type (node_type (h r)) \<and> off_root h (parent (h r)) rs)"

text \<open>
  The name that the last three statements of \<^verbatim>\<open>getParentFunctionIdentifier\<close> give to the
  function node at \<open>f\<close>.
\<close>

definition function_name :: "heap \<Rightarrow> ref \<Rightarrow> val" where
  "function_name h f =
     (if truthy (node_id (h f)) then node_id (h f)
      else case parent (h f) of
             Ref p \<Rightarrow>
               if node_type (h p) = Str ''VariableDeclarator'' then node_id (h p)
               else if node_type (h p) = Str ''AssignmentExpression'' then left (h p)
               else Null
           | _ \<Rightarrow> Null)"

text \<open>The dotted name of a chain: the collected segments, reversed and joined.\<close>

definition chain_name :: "heap \<Rightarrow> ref list \<Rightarrow> ref \<Rightarrow> string" where
  "chain_name h rs b = join ''.'' (rev (map (property_name h) rs @ base_segment h b))"

text \<open>The same tree with the \<^verbatim>\<open>computed\<close> flag of every node \<open>r\<close> replaced by \<open>c r\<close>.\<close>

definition set_computed :: "(ref \<Rightarrow> val) \<Rightarrow> heap \<Rightarrow> heap" where
  "set_computed c h = (\<lambda>r. (h r)\<lparr> computed := c r \<rparr>)"

section \<open>Example programs\<close>

definition blank :: node where
  "blank = \<lparr> node_type = Undefined, name = Undefined, callee = Undefined, computed = Undefined,
             object = Undefined, property = Undefined, node_id = Undefined, parent = Undefined,
             left = Undefined, right = Undefined, init = Undefined, node_value = Undefined,
             consequent = Undefined, alternate = Undefined, body = Undefined,
             arguments = None, elements = None \<rparr>"

definition typed :: "string \<Rightarrow> val \<Rightarrow> node" where
  "typed t par = blank\<lparr> node_type := Str t, parent := par \<rparr>"

definition Identifier :: "string \<Rightarrow> val \<Rightarrow> node" where
  "Identifier nm par = (typed ''Identifier'' par)\<lparr> name := Str nm \<rparr>"

definition MemberExpression :: "val \<Rightarrow> val \<Rightarrow> bool \<Rightarrow> val \<Rightarrow> node" where
  "MemberExpression ob pr c par =
     (typed ''MemberExpression'' par)\<lparr> object := ob, property := pr, computed := Bool c \<rparr>"

definition CallExpression :: "val \<Rightarrow> val list \<Rightarrow> val \<Rightarrow> node" where
  "CallExpression f args par =
     (typed ''CallExpression'' par)\<lparr> callee := f, arguments := Some args \<rparr>"

definition Function :: "string \<Rightarrow> val \<Rightarrow> val \<Rightarrow> val \<Rightarrow> node" where
  "Function t i b par = (typed t par)\<lparr> node_id := i, body := b \<rparr>"

text \<open>
  \<^verbatim>\<open>a.b.c(x);\<close> as a whole program: the call at 0, the chain \<^verbatim>\<open>a.b.c\<close> at 1, \<^verbatim>\<open>a.b\<close> at 2,
  the identifiers \<^verbatim>\<open>a\<close>, \<^verbatim>\<open>b\<close>, \<^verbatim>\<open>c\<close>, \<^verbatim>\<open>x\<close> at 3, 4, 5, 6, the statement at 7 and the
  program at 8, whose \<^verbatim>\<open>parent\<close> is \<^verbatim>\<open>null\<close>.
\<close>

definition prog_chain :: heap where
  "prog_chain = (\<lambda>_. blank)
     (0 := CallExpression (Ref 1) [Ref 6] (Ref 7),
      1 := MemberExpression (Ref 2) (Ref 5) False (Ref 0),
      2 := MemberExpression (Ref 3) (Ref 4) False (Ref 1),
      3 := Identifier ''a'' (Ref 2),
      4 := Identifier ''b'' (Ref 2),
      5 := Identifier ''c'' (Ref 1),
      6 := Identifier ''x'' (Ref 0),
      7 := typed ''ExpressionStatement'' (Ref 8),
      8 := typed ''Program'' Null)"

text \<open>
  \<^verbatim>\<open>f();\<close>: the call at 0, the identifier \<^verbatim>\<open>f\<close> at 1.
\<close>

definition prog_call :: heap where
  "prog_call = (\<lambda>_. blank)
     (0 := CallExpression (Ref 1) [] (Ref 2),
      1 := Identifier ''f'' (Ref 0),
      2 := typed ''ExpressionStatement'' (Ref 3),
      3 := typed ''Program'' Null)"

text \<open>
  \<^verbatim>\<open>this.a;\<close>: the member expression at 1, \<^verbatim>\<open>this\<close> at 2, the identifier \<^verbatim>\<open>a\<close> at 3.
\<close>

definition prog_this :: heap where
  "prog_this = (\<lambda>_. blank)
     (0 := typed ''ExpressionStatement'' (Ref 4),
      1 := MemberExpression (Ref 2) (Ref 3) False (Ref 0),
      2 := typed ''ThisExpression'' (Ref 1),
      3 := Identifier ''a'' (Ref 1),
      4 := typed ''Program'' Null)"

text \<open>
  \<^verbatim>\<open>x(x);\<close>: the call at 0, its callee \<^verbatim>\<open>x\<close> at 1 and its argument \<^verbatim>\<open>x\<close> at 2: two
  nodes with the same content at different places.
\<close>

definition prog_self :: heap where
  "prog_self = (\<lambda>_. blank)
     (0 := CallExpression (Ref 1) [Ref 2] (Ref 3),
      1 := Identifier ''x'' (Ref 0),
      2 := Identifier ''x'' (Ref 0),
      3 := typed ''ExpressionStatement'' (Ref 4),
      4 := typed ''Program'' Null)"

text \<open>
  \<^verbatim>\<open>x ? x : y;\<close>: the conditional at 0, its test \<^verbatim>\<open>x\<close> at 1, its consequent \<^verbatim>\<open>x\<close> at 2
  and its alternate \<^verbatim>\<open>y\<close> at 3.
\<close>

definition prog_cond :: heap where
  "prog_cond = (\<lambda>_. blank)
     (0 := (typed ''ConditionalExpression'' (Ref 4))\<lparr> consequent := Ref 2, alternate := Ref 3 \<rparr>,
      1 := Identifier ''x'' (Ref 0),
      2 := Identifier ''x'' (Ref 0),
      3 := Identifier ''y'' (Ref 0),
      4 := typed ''ExpressionStatement'' (Ref 5),
      5 := typed ''Program'' Null)"

text \<open>
  \<^verbatim>\<open>function foo() { y; }\<close>: the declaration at 0, its name at 1, the identifier \<^verbatim>\<open>y\<close>
  of its body at 4.
\<close>

definition prog_decl :: heap where
  "prog_decl = (\<lambda>_. blank)
     (0 := Function ''FunctionDeclaration'' (Ref 1) (Ref 2) (Ref 5),
      1 := Identifier ''foo'' (Ref 0),
      2 := typed ''BlockStatement'' (Ref 0),
      3 := typed ''ExpressionStatement'' (Ref 2),
      4 := Identifier ''y'' (Ref 3),
      5 := typed ''Program'' Null)"

text \<open>
  \<^verbatim>\<open>var bar = function () { z; };\<close>: the declarator at 1, the identifier \<^verbatim>\<open>bar\<close> at 2,
  the anonymous function at 3, the identifier \<^verbatim>\<open>z\<close> of its body at 6.
\<close>

definition prog_var :: heap where
  "prog_var = (\<lambda>_. blank)
     (0 := typed ''VariableDeclaration'' (Ref 7),
      1 := (typed ''VariableDeclarator'' (Ref 0))\<lparr> node_id := Ref 2, init := Ref 3 \<rparr>,
      2 := Identifier ''bar'' (Ref 1),
      3 := Function ''FunctionExpression'' Null (Ref 4) (Ref 1),
      4 := typed ''BlockStatement'' (Ref 3),
      5 := typed ''ExpressionStatement'' (Ref 4),
      6 := Identifier ''z'' (Ref 5),
      7 := typed ''Program'' Null)"

text \<open>
  \<^verbatim>\<open>a.b = function () { w; };\<close>: the assignment at 1, its target \<^verbatim>\<open>a.b\<close> at 2, the
  anonymous function at 5, the identifier \<^verbatim>\<open>w\<close> of its body at 8.
\<close>

definition prog_assign :: heap where
  "prog_assign = (\<lambda>_. blank)
     (0 := typed ''ExpressionStatement'' (Ref 9),
      1 := (typed ''AssignmentExpression'' (Ref 0))\<lparr> left := Ref 2, right := Ref 5 \<rparr>,
      2 := MemberExpression (Ref 3) (Ref 4) False (Ref 1),
      3 := Identifier ''a'' (Ref 2),
      4 := Identifier ''b'' (Ref 2),
      5 := Function ''FunctionExpression'' Null (Ref 6) (Ref 1),
      6 := typed ''BlockStatement'' (Ref 5),
      7 := typed ''ExpressionStatement'' (Ref 6),
      8 := Identifier ''w'' (Ref 7),
      9 := typed ''Program'' Null)"

text \<open>
  \<^verbatim>\<open>function outer() { var inner = function () { }; }\<close>: the declaration of
  \<^verbatim>\<open>outer\<close> at 0, the declarator at 4, the identifier \<^verbatim>\<open>inner\<close> at 5, the anonymous
  function at 6.
\<close>

definition prog_nested :: heap where
  "prog_nested = (\<lambda>_. blank)
     (0 := Function ''FunctionDeclaration'' (Ref 1) (Ref 2) (Ref 8),
      1 := Identifier ''outer'' (Ref 0),
      2 := typed ''BlockStatement'' (Ref 0),
      3 := typed ''VariableDeclaration'' (Ref 2),
      4 := (typed ''VariableDeclarator'' (Ref 3))\<lparr> node_id := Ref 5, init := Ref 6 \<rparr>,
      5 := Identifier ''inner'' (Ref 4),
      6 := Function ''FunctionExpression'' Null (Ref 7) (Ref 4),
      7 := typed ''BlockStatement'' (Ref 6),
      8 := typed ''Program'' Null)"

text \<open>
  \<^verbatim>\<open>a['x'].c;\<close>: the chain at 1, the computed access \<^verbatim>\<open>a['x']\<close> at 2, the identifier \<^verbatim>\<open>a\<close>
  at 3, the literal \<^verbatim>\<open>'x'\<close> at 4 (a literal has no \<^verbatim>\<open>name\<close>), the identifier \<^verbatim>\<open>c\<close> at 5.
\<close>

definition prog_computed :: heap where
  "prog_computed = (\<lambda>_. blank)
     (0 := typed ''ExpressionStatement'' (Ref 6),
      1 := MemberExpression (Ref 2) (Ref 5) False (Ref 0),
      2 := MemberExpression (Ref 3) (Ref 4) True (Ref 1),
      3 := Identifier ''a'' (Ref 2),
      4 := (typed ''Literal'' (Ref 2))\<lparr> node_value := Str ''x'' \<rparr>,
      5 := Identifier ''c'' (Ref 1),
      6 := typed ''Program'' Null)"

section \<open>Facts about the model\<close>

lemmas example_defs =
  blank_def typed_def Identifier_def MemberExpression_def CallExpression_def Function_def

lemma forEach_flag_foldl:
  "foldl (\<lambda>flag a. if a = n then True else flag) b xs = (b \<or> n \<in> set xs)"
  by (induction xs arbitrary: b) auto

lemma forEach_flag_set: "forEach_flag n xs = (n \<in> set xs)"
  by (simp add: forEach_flag_def forEach_flag_foldl)

section \<open>\<^verbatim>\<open>getIdentifier\<close>\<close>

text \<open>
  Claim C8. \<^verbatim>\<open>getIdentifier\<close> returns an identifier node as it is; and when the two unwrap
  steps lead to a node \<open>m\<close>, it returns \<open>m\<close> if \<open>m\<close> is an identifier and \<^verbatim>\<open>null\<close> if it
  is not.
\<close>

theorem getIdentifier_identity_or_null:
  "(get h n node_type = Inr (Str ''Identifier'') \<longrightarrow> getIdentifier h n = Inr n) \<and>
   (unwrap_steps h n = Inr m \<and> get h m node_type = Inr t \<longrightarrow>
      getIdentifier h n = Inr (if t = Str ''Identifier'' then m else Null))"
  by (auto simp: getIdentifier_def unwrap_steps_def unwrap_call_def unwrap_member_def bindE_def
      split: sum.splits if_splits)

text \<open>
  In \<^verbatim>\<open>a.b.c(x);\<close> the identifier \<^verbatim>\<open>a\<close> resolves to itself, the call resolves to the
  identifier \<^verbatim>\<open>c\<close>, and the expression statement resolves to \<^verbatim>\<open>null\<close>.
\<close>

theorem getIdentifier_identity_or_null_witness:
  "get prog_chain (Ref 3) node_type = Inr (Str ''Identifier'') \<and>
   getIdentifier prog_chain (Ref 3) = Inr (Ref 3) \<and>
   unwrap_steps prog_chain (Ref 0) = Inr (Ref 5) \<and>
   get prog_chain (Ref 5) node_type = Inr (Str ''Identifier'') \<and>
   getIdentifier prog_chain (Ref 0) = Inr (Ref 5) \<and>
   unwrap_steps prog_chain (Ref 7) = Inr (Ref 7) \<and>
   get prog_chain (Ref 7) node_type = Inr (Str ''ExpressionStatement'') \<and>
   getIdentifier prog_chain (Ref 7) = Inr Null"
  using getIdentifier_identity_or_null [of prog_chain "Ref 3"]
    getIdentifier_identity_or_null [of prog_chain "Ref 0" "Ref 5" "Str ''Identifier''"]
    getIdentifier_identity_or_null [of prog_chain "Ref 7" "Ref 7" "Str ''ExpressionStatement''"]
  by (simp add: unwrap_steps_def unwrap_call_def unwrap_member_def bindE_def prog_chain_def
      example_defs)

text \<open>
  On a well-formed tree \<^verbatim>\<open>getIdentifier\<close> does not throw on a node, and what it returns is
  \<^verbatim>\<open>null\<close> or an identifier node.
\<close>

lemma getIdentifier_total:
  assumes "wf_heap h"
  shows "\<exists>ident. getIdentifier h (Ref r) = Inr ident \<and>
           (ident = Null \<or> (\<exists>i. ident = Ref i \<and> node_type (h i) = Str ''Identifier''))"
proof -
  have wf: "\<And>q. wf_node (h q)" using assms by (simp add: wf_heap_def)
  have "\<exists>r1. unwrap_call h (Ref r) = Inr (Ref r1)"
  proof (cases "node_type (h r) = Str ''CallExpression''")
    case True
    then have "is_ref (callee (h r))" using wf[of r] by (simp add: wf_node_def)
    then show ?thesis using True by (cases "callee (h r)") (auto simp: unwrap_call_def bindE_def)
  next
    case False
    then show ?thesis by (simp add: unwrap_call_def bindE_def)
  qed
  then obtain r1 where n1: "unwrap_call h (Ref r) = Inr (Ref r1)"
    by blast
  have "\<exists>r2. unwrap_member h (Ref r1) = Inr (Ref r2)"
  proof (cases "node_type (h r1) = Str ''MemberExpression''")
    case True
    then have "is_ref (object (h r1))" "is_ref (property (h r1))"
      using wf[of r1] by (simp_all add: wf_node_def)
    then show ?thesis using True
      by (cases "object (h r1)"; cases "property (h r1)") (auto simp: unwrap_member_def bindE_def)
  next
    case False
    then show ?thesis by (simp add: unwrap_member_def bindE_def)
  qed
  then obtain r2 where n2: "unwrap_member h (Ref r1) = Inr (Ref r2)"
    by blast
  have "getIdentifier h (Ref r) =
          bindE (unwrap_steps h (Ref r)) (\<lambda>n. bindE (get h n node_type) (\<lambda>t.
            if t \<noteq> Str ''Identifier'' then Inr Null else Inr n))"
    by (simp add: getIdentifier_def unwrap_steps_def unwrap_call_def unwrap_member_def bindE_def
        split: sum.splits)
  then show ?thesis
    using n1 n2 by (simp add: unwrap_steps_def bindE_def)
qed

section \<open>\<^verbatim>\<open>getNodeName\<close>\<close>

text \<open>
  Claim C9. On a well-formed tree, \<^verbatim>\<open>getNodeName\<close> returns the string \<^verbatim>\<open>this\<close> for a
  \<^verbatim>\<open>ThisExpression\<close> node; for any other node it returns the name of the identifier that
  \<^verbatim>\<open>getIdentifier\<close> gives, and the empty string when \<^verbatim>\<open>getIdentifier\<close> gives \<^verbatim>\<open>null\<close>;
  in every case it returns a value and does not throw.
\<close>

theorem getNodeName_total:
  assumes "wf_heap h"
  shows "(node_type (h r) = Str ''ThisExpression'' \<longrightarrow>
            getNodeName h (Ref r) = Inr (Str ''this'')) \<and>
         (node_type (h r) \<noteq> Str ''ThisExpression'' \<longrightarrow>
            (\<exists>ident. getIdentifier h (Ref r) = Inr ident \<and> (ident = Null \<or> is_ref ident) \<and>
               getNodeName h (Ref r) =
                 Inr (case ident of Ref i \<Rightarrow> name (h i) | _ \<Rightarrow> Str []))) \<and>
         (\<exists>s. getNodeName h (Ref r) = Inr s)"
proof -
  obtain ident where i: "getIdentifier h (Ref r) = Inr ident"
    and c: "ident = Null \<or> (\<exists>i. ident = Ref i \<and> node_type (h i) = Str ''Identifier'')"
    using getIdentifier_total [OF assms, of r] by blast
  show ?thesis
    using i c by (auto simp: getNodeName_def bindE_def)
qed

text \<open>
  In \<^verbatim>\<open>this.a;\<close> the name of \<^verbatim>\<open>this\<close> is \<^verbatim>\<open>this\<close>, the name of \<^verbatim>\<open>this.a\<close> is \<^verbatim>\<open>a\<close>, and the
  name of the statement is the empty string.
\<close>

theorem getNodeName_total_witness:
  "wf_heap prog_this \<and>
   node_type (prog_this 2) = Str ''ThisExpression'' \<and>
   getNodeName prog_this (Ref 2) = Inr (Str ''this'') \<and>
   getIdentifier prog_this (Ref 1) = Inr (Ref 3) \<and>
   getNodeName prog_this (Ref 1) = Inr (Str ''a'') \<and>
   getIdentifier prog_this (Ref 0) = Inr Null \<and>
   getNodeName prog_this (Ref 0) = Inr (Str [])"
proof -
  have w: "wf_heap prog_this"
    by (simp add: wf_heap_def wf_node_def prog_this_def example_defs)
  have i1: "getIdentifier prog_this (Ref 1) = Inr (Ref 3)"
    by (simp add: getIdentifier_def bindE_def prog_this_def example_defs)
  have i0: "getIdentifier prog_this (Ref 0) = Inr Null"
    by (simp add: getIdentifier_def bindE_def prog_this_def example_defs)
  show ?thesis
    using w i1 i0 getNodeName_total [OF w, of 2] getNodeName_total [OF w, of 1]
      getNodeName_total [OF w, of 0]
    by (simp add: prog_this_def example_defs)
qed

section \<open>\<^verbatim>\<open>getFullItemName\<close>\<close>

text \<open>Along a chain the loop returns, with one segment per member expression, in the order met.\<close>

lemma fullNameLoop_chain:
  "member_chain h v rs b \<Longrightarrow>
   fullNameLoop h v acc = Some (Inr (acc @ map (property_name h) rs, Ref b))"
proof (induction rs arbitrary: v acc)
  case Nil
  then show ?case by (subst fullNameLoop.simps) simp
next
  case (Cons r rs)
  from Cons.prems obtain p where p: "property (h r) = Ref p"
    by (cases "property (h r)") auto
  from Cons.prems have v: "v = Ref r" and t: "node_type (h r) = Str ''MemberExpression''"
    and rest: "member_chain h (object (h r)) rs b" by simp_all
  show ?case
    by (subst fullNameLoop.simps) (simp add: v t p bindE_def property_name_def Cons.IH [OF rest])
qed

lemma getFullItemName_chain:
  assumes "member_chain h f rs b" and "unwrap_call h v = Inr f"
  shows "getFullItemName h v = Some (Inr (Str (chain_name h rs b)))"
proof -
  have "bindE (get h v node_type) (\<lambda>t0.
          if t0 = Str ''CallExpression'' then get h v callee else Inr v) = Inr f"
    using assms(2) by (simp add: unwrap_call_def)
  then show ?thesis
    unfolding getFullItemName_def
    by (simp add: fullNameLoop_chain [OF assms(1)] bindE_def base_segment_def chain_name_def)
qed

lemma member_chain_set_computed:
  "member_chain (set_computed c h) v rs b = member_chain h v rs b"
  by (induction rs arbitrary: v) (simp_all add: set_computed_def)

lemma property_name_set_computed: "property_name (set_computed c h) = property_name h"
  by (simp add: property_name_def set_computed_def fun_eq_iff split: val.splits)

lemma base_segment_set_computed: "base_segment (set_computed c h) = base_segment h"
  by (simp add: base_segment_def set_computed_def fun_eq_iff)

lemma chain_name_set_computed: "chain_name (set_computed c h) rs b = chain_name h rs b"
  by (simp add: chain_name_def property_name_set_computed base_segment_set_computed)

lemma unwrap_call_set_computed: "unwrap_call (set_computed c h) v = unwrap_call h v"
  by (cases v) (simp_all add: unwrap_call_def set_computed_def bindE_def)

text \<open>
  Claim C2. Let \<open>v\<close> be a chain of member expressions, or a call whose callee is one: after
  the call is unwrapped, the member expressions \<open>rs\<close> are met along \<^verbatim>\<open>object\<close> links down to
  the base node \<open>b\<close>. Then \<^verbatim>\<open>getFullItemName\<close> returns the segments collected in this order
  (the property names, rightmost first, then the name of the base when it is an identifier),
  reversed and joined with a dot. For \<^verbatim>\<open>a.b.c(x)\<close> and for \<^verbatim>\<open>a.b.c\<close> this is \<^verbatim>\<open>a.b.c\<close>.
\<close>

theorem getFullItemName_round_trip:
  assumes "member_chain h f rs b" and "unwrap_call h v = Inr f"
  shows "getFullItemName h v =
           Some (Inr (Str (join ''.'' (rev (map (property_name h) rs @ base_segment h b)))))"
  using getFullItemName_chain [OF assms] by (simp add: chain_name_def)

text \<open>The call \<^verbatim>\<open>a.b.c(x)\<close> is at 0 and the bare chain \<^verbatim>\<open>a.b.c\<close> at 1.\<close>

theorem getFullItemName_round_trip_witness:
  "member_chain prog_chain (Ref 1) [1, 2] 3 \<and>
   unwrap_call prog_chain (Ref 0) = Inr (Ref 1) \<and>
   unwrap_call prog_chain (Ref 1) = Inr (Ref 1) \<and>
   getFullItemName prog_chain (Ref 0) = Some (Inr (Str ''a.b.c'')) \<and>
   getFullItemName prog_chain (Ref 1) = Some (Inr (Str ''a.b.c''))"
proof -
  have c: "member_chain prog_chain (Ref 1) [1, 2] 3"
    by (simp add: prog_chain_def example_defs)
  have u0: "unwrap_call prog_chain (Ref 0) = Inr (Ref 1)"
    by (simp add: unwrap_call_def bindE_def prog_chain_def example_defs)
  have u1: "unwrap_call prog_chain (Ref 1) = Inr (Ref 1)"
    by (simp add: unwrap_call_def bindE_def prog_chain_def example_defs)
  have n: "join ''.'' (rev (map (property_name prog_chain) [1, 2] @ base_segment prog_chain 3))
             = ''a.b.c''"
    by (simp add: property_name_def base_segment_def prog_chain_def example_defs)
  show ?thesis
    using c u0 u1 getFullItemName_round_trip [OF c u0] getFullItemName_round_trip [OF c u1]
    by (simp only: n simp_thms)
qed

text \<open>
  Claim C7. On a chain of member expressions (or a call of one) \<^verbatim>\<open>getFullItemName\<close> returns
  a string and does not throw, whatever the property nodes are: the segment of a member
  expression is the \<^verbatim>\<open>name\<close> read from its property node, a property node without a
  \<^verbatim>\<open>name\<close> gives \<^verbatim>\<open>undefined\<close>, which is joined as the empty string; and the result does
  not depend on the \<^verbatim>\<open>computed\<close> flags.
\<close>

theorem getFullItemName_computed:
  assumes "member_chain h f rs b" and "unwrap_call h v = Inr f"
  shows "(\<exists>s. getFullItemName h v = Some (Inr (Str s))) \<and>
         getFullItemName h v =
           Some (Inr (Str (join ''.'' (rev (map (property_name h) rs @ base_segment h b))))) \<and>
         (\<forall>r \<in> set rs. \<forall>p. property (h r) = Ref p \<and> name (h p) = Undefined \<longrightarrow>
            property_name h r = Undefined \<and> join_elem (property_name h r) = []) \<and>
         getFullItemName (set_computed c h) v = getFullItemName h v"
proof -
  have a: "getFullItemName h v = Some (Inr (Str (chain_name h rs b)))"
    by (rule getFullItemName_chain [OF assms])
  have "member_chain (set_computed c h) f rs b"
    using assms(1) by (simp add: member_chain_set_computed)
  moreover have "unwrap_call (set_computed c h) v = Inr f"
    using assms(2) by (simp add: unwrap_call_set_computed)
  ultimately have b: "getFullItemName (set_computed c h) v = Some (Inr (Str (chain_name h rs b)))"
    using getFullItemName_chain [of "set_computed c h" f rs b v]
    by (simp add: chain_name_set_computed)
  show ?thesis
    using a b by (auto simp: chain_name_def property_name_def)
qed

text \<open>
  In \<^verbatim>\<open>a['x'].c\<close> the computed access has a literal as property: the result is \<^verbatim>\<open>a..c\<close>,
  also when every \<^verbatim>\<open>computed\<close> flag is cleared.
\<close>

theorem getFullItemName_computed_witness:
  "member_chain prog_computed (Ref 1) [1, 2] 3 \<and>
   unwrap_call prog_computed (Ref 1) = Inr (Ref 1) \<and>
   truthy (computed (prog_computed 2)) \<and>
   property (prog_computed 2) = Ref 4 \<and>
   node_type (prog_computed 4) = Str ''Literal'' \<and>
   name (prog_computed 4) = Undefined \<and>
   join_elem (property_name prog_computed 2) = [] \<and>
   getFullItemName prog_computed (Ref 1) = Some (Inr (Str ''a..c'')) \<and>
   getFullItemName (set_computed (\<lambda>_. Bool False) prog_computed) (Ref 1) =
     Some (Inr (Str ''a..c''))"
proof -
  have c: "member_chain prog_computed (Ref 1) [1, 2] 3"
    by (simp add: prog_computed_def example_defs)
  have u: "unwrap_call prog_computed (Ref 1) = Inr (Ref 1)"
    by (simp add: unwrap_call_def bindE_def prog_computed_def example_defs)
  have n: "join ''.'' (rev (map (property_name prog_computed) [1, 2] @
             base_segment prog_computed 3)) = ''a..c''"
    by (simp add: property_name_def base_segment_def prog_computed_def example_defs)
  have p: "property (prog_computed 2) = Ref 4" "name (prog_computed 4) = Undefined"
    "truthy (computed (prog_computed 2))" "node_type (prog_computed 4) = Str ''Literal''"
    by (simp_all add: prog_computed_def example_defs)
  note th = getFullItemName_computed [OF c u, of "\<lambda>_. Bool False"]
  have r: "getFullItemName prog_computed (Ref 1) = Some (Inr (Str ''a..c''))"
    using th [THEN conjunct2, THEN conjunct1] by (simp only: n)
  have r': "getFullItemName (set_computed (\<lambda>_. Bool False) prog_computed) (Ref 1) =
              Some (Inr (Str ''a..c''))"
    using th [THEN conjunct2, THEN conjunct2, THEN conjunct2] by (simp only: r)
  have j: "join_elem (property_name prog_computed 2) = []"
    using th [THEN conjunct2, THEN conjunct2, THEN conjunct1] p by simp
  show ?thesis
    using c u p j r r' by blast
qed

section \<open>\<^verbatim>\<open>getPartialItemName\<close>\<close>

text \<open>
  Claim C4. \<^verbatim>\<open>getPartialItemName\<close> unwraps one call layer, giving \<open>f\<close> of type \<open>t\<close>, and
  resolves \<open>f\<close> with \<^verbatim>\<open>getIdentifier\<close>. When that is \<^verbatim>\<open>null\<close> it returns \<^verbatim>\<open>undefined\<close>,
  and only then; when that is an identifier it returns the identifier's name, with a dot
  in front exactly when \<open>f\<close> is a member expression. So \<^verbatim>\<open>a.b.c()\<close> gives \<^verbatim>\<open>.c\<close> and
  \<^verbatim>\<open>f()\<close> gives \<^verbatim>\<open>f\<close>.
\<close>

theorem getPartialItemName_spec:
  assumes "unwrap_call h v = Inr f" and "get h f node_type = Inr t"
  shows "(getIdentifier h f = Inr Null \<longrightarrow> getPartialItemName h v = Inr Undefined) \<and>
         (\<forall>i. getIdentifier h f = Inr (Ref i) \<longrightarrow>
            getPartialItemName h v =
              Inr (Str ((if t = Str ''MemberExpression'' then ''.'' else []) @
                        to_string (name (h i))))) \<and>
         (getPartialItemName h v = Inr Undefined \<longrightarrow> getIdentifier h f = Inr Null)"
proof -
  have u: "bindE (get h v node_type) (\<lambda>t0.
             if t0 = Str ''CallExpression'' then get h v callee else Inr v) = Inr f"
    using assms(1) by (simp add: unwrap_call_def)
  have v: "get h v node_type = Inr t0 \<Longrightarrow>
           (if t0 = Str ''CallExpression'' then get h v callee else Inr v) = Inr f" for t0
    using u by (simp add: bindE_def)
  have ex: "\<exists>t0. get h v node_type = Inr t0"
    using u by (cases "get h v node_type") (auto simp: bindE_def)
  have p: "getPartialItemName h v =
           bindE (getIdentifier h f) (\<lambda>ident.
             if \<not> truthy ident then Inr Undefined
             else bindE (get h ident name) (\<lambda>nm.
                    Inr (Str ((if t = Str ''MemberExpression'' then ''.'' else []) @
                              to_string nm))))"
    using ex v assms(2) by (auto simp: getPartialItemName_def bindE_def Let_def)
  have q: "getIdentifier h f = Inr ident \<Longrightarrow> ident = Null \<or> is_ref ident" for ident
    by (cases ident)
       (auto simp: getIdentifier_def bindE_def split: sum.splits if_splits)
  show ?thesis
  proof (cases "getIdentifier h f")
    case (Inl e)
    then show ?thesis by (simp add: p bindE_def)
  next
    case (Inr ident)
    with q [OF Inr] show ?thesis
      by (cases ident) (auto simp: p bindE_def)
  qed
qed

text \<open>
  The call \<^verbatim>\<open>a.b.c(x)\<close> gives \<^verbatim>\<open>.c\<close>, the call \<^verbatim>\<open>f()\<close> gives \<^verbatim>\<open>f\<close>, and the statement
  around it, which has no name, gives \<^verbatim>\<open>undefined\<close>.
\<close>

theorem getPartialItemName_spec_witness:
  "unwrap_call prog_chain (Ref 0) = Inr (Ref 1) \<and>
   get prog_chain (Ref 1) node_type = Inr (Str ''MemberExpression'') \<and>
   getIdentifier prog_chain (Ref 1) = Inr (Ref 5) \<and>
   getPartialItemName prog_chain (Ref 0) = Inr (Str ''.c'') \<and>
   unwrap_call prog_call (Ref 0) = Inr (Ref 1) \<and>
   get prog_call (Ref 1) node_type = Inr (Str ''Identifier'') \<and>
   getIdentifier prog_call (Ref 1) = Inr (Ref 1) \<and>
   getPartialItemName prog_call (Ref 0) = Inr (Str ''f'') \<and>
   unwrap_call prog_call (Ref 2) = Inr (Ref 2) \<and>
   get prog_call (Ref 2) node_type = Inr (Str ''ExpressionStatement'') \<and>
   getIdentifier prog_call (Ref 2) = Inr Null \<and>
   getPartialItemName prog_call (Ref 2) = Inr Undefined"
proof -
  have a: "unwrap_call prog_chain (Ref 0) = Inr (Ref 1)"
    "get prog_chain (Ref 1) node_type = Inr (Str ''MemberExpression'')"
    "getIdentifier prog_chain (Ref 1) = Inr (Ref 5)"
    by (simp_all add: unwrap_call_def getIdentifier_def bindE_def prog_chain_def example_defs)
  have b: "unwrap_call prog_call (Ref 0) = Inr (Ref 1)"
    "get prog_call (Ref 1) node_type = Inr (Str ''Identifier'')"
    "getIdentifier prog_call (Ref 1) = Inr (Ref 1)"
    by (simp_all add: unwrap_call_def getIdentifier_def bindE_def prog_call_def example_defs)
  have c: "unwrap_call prog_call (Ref 2) = Inr (Ref 2)"
    "get prog_call (Ref 2) node_type = Inr (Str ''ExpressionStatement'')"
    "getIdentifier prog_call (Ref 2) = Inr Null"
    by (simp_all add: unwrap_call_def getIdentifier_def bindE_def prog_call_def example_defs)
  show ?thesis
    using a b c getPartialItemName_spec [OF a(1) a(2)] getPartialItemName_spec [OF b(1) b(2)]
      getPartialItemName_spec [OF c(1) c(2)]
    by (simp add: prog_chain_def prog_call_def example_defs)
qed

section \<open>\<^verbatim>\<open>isParameter\<close>\<close>

text \<open>
  Claim C3. For a containing node \<open>e\<close>, \<^verbatim>\<open>isParameter\<close> answers by the type of \<open>e\<close>: for a
  call, whether the node is one of the \<^verbatim>\<open>arguments\<close>; for an assignment, whether it is
  \<^verbatim>\<open>right\<close>; for a declarator, whether it is \<^verbatim>\<open>init\<close>; for a property, whether it is
  \<^verbatim>\<open>value\<close>; for an array expression, whether it is one of the \<^verbatim>\<open>elements\<close>; for a function
  expression, false; for a conditional, whether it is \<^verbatim>\<open>consequent\<close> or \<^verbatim>\<open>alternate\<close>; for
  an arrow function, whether it is \<^verbatim>\<open>body\<close>; for any other type, true. Every comparison is
  between references, so a node with the same content at another address does not count.
  (Where the array of a call or of an array expression is missing, the call throws.)
\<close>

theorem isParameter_table:
  "isParameter h n (Ref e) =
     (let x = h e; t = node_type x in
      if t = Str ''CallExpression'' then
        (case arguments x of None \<Rightarrow> Inl TypeError | Some args \<Rightarrow> Inr (n \<in> set args))
      else if t = Str ''AssignmentExpression'' then Inr (n = right x)
      else if t = Str ''VariableDeclarator'' then Inr (n = init x)
      else if t = Str ''Property'' then Inr (n = node_value x)
      else if t = Str ''ArrayExpression'' then
        (case elements x of None \<Rightarrow> Inl TypeError | Some es \<Rightarrow> Inr (n \<in> set es))
      else if t = Str ''FunctionExpression'' then Inr False
      else if t = Str ''ConditionalExpression'' then Inr (n = consequent x \<or> n = alternate x)
      else if t = Str ''ArrowFunctionExpression'' then Inr (n = body x)
      else Inr True)"
  by (auto simp: isParameter_def bindE_def Let_def forEach_flag_set split: option.splits)

text \<open>
  In \<^verbatim>\<open>x(x)\<close> the callee and the argument are two nodes with the same content: the argument
  is a parameter of the call, the callee is not. In \<^verbatim>\<open>x ? x : y\<close> the test and the
  consequent have the same content: the consequent and the alternate are parameters, the
  test is not. The conditional is a parameter of the statement around it, whose type is
  none of the eight.
\<close>

theorem isParameter_table_witness:
  "prog_self 1 = prog_self 2 \<and>
   isParameter prog_self (Ref 2) (Ref 0) = Inr True \<and>
   isParameter prog_self (Ref 1) (Ref 0) = Inr False \<and>
   prog_cond 1 = prog_cond 2 \<and>
   isParameter prog_cond (Ref 1) (Ref 0) = Inr False \<and>
   isParameter prog_cond (Ref 2) (Ref 0) = Inr True \<and>
   isParameter prog_cond (Ref 3) (Ref 0) = Inr True \<and>
   isParameter prog_cond (Ref 0) (Ref 4) = Inr True"
  using isParameter_table [of prog_self "Ref 2" 0] isParameter_table [of prog_self "Ref 1" 0]
    isParameter_table [of prog_cond "Ref 1" 0] isParameter_table [of prog_cond "Ref 2" 0]
    isParameter_table [of prog_cond "Ref 3" 0] isParameter_table [of prog_cond "Ref 0" 4]
  by (simp add: prog_self_def prog_cond_def example_defs)

section \<open>\<^verbatim>\<open>getParentFunctionIdentifier\<close>\<close>

lemma closestFunction_ancestors:
  "ancestors_to h v rs f \<Longrightarrow> closestFunction h v = Some (Inr (Ref f))"
proof (induction rs arbitrary: v)
  case Nil
  then show ?case
    by (subst closestFunction.simps) (auto simp: is_function_type_def)
next
  case (Cons r rs)
  then have v: "v = Ref r" and nf: "\<not> is_function_type (node_type (h r))"
    and rest: "ancestors_to h (parent (h r)) rs f" by simp_all
  show ?case
    using nf by (subst closestFunction.simps) (simp add: v is_function_type_def Cons.IH [OF rest])
qed

lemma closestFunction_off_root:
  "off_root h v rs \<Longrightarrow> \<exists>e. closestFunction h v = Some (Inr e) \<and> (e = Undefined \<or> e = Null)"
proof (induction rs arbitrary: v)
  case Nil
  then show ?case
    by (subst closestFunction.simps) auto
next
  case (Cons r rs)
  then have v: "v = Ref r" and nf: "\<not> is_function_type (node_type (h r))"
    and rest: "off_root h (parent (h r)) rs" by simp_all
  show ?case
    using nf Cons.IH [OF rest]
    by (subst closestFunction.simps) (simp add: v is_function_type_def)
qed

lemma after_loop:
  "bindE (get h (Ref f) node_id) (\<lambda>i.
      if truthy i then Inr i
      else bindE (get h (Ref f) parent) (\<lambda>p.
             if is_of_type h p ''VariableDeclarator'' then get h p node_id
             else if is_of_type h p ''AssignmentExpression'' then get h p left
             else Inr Null)) = Inr (function_name h f)"
  by (cases "parent (h f)") (auto simp: bindE_def function_name_def is_of_type_def)

lemma getParentFunctionIdentifier_ancestors:
  "ancestors_to h v rs f \<Longrightarrow> getParentFunctionIdentifier h v = Some (Inr (function_name h f))"
  unfolding getParentFunctionIdentifier_def
  using after_loop [of h f] by (simp add: closestFunction_ancestors)

text \<open>
  Whenever the walk runs off the root, the read of \<^verbatim>\<open>func.id\<close> after the loop throws.
\<close>

lemma getParentFunctionIdentifier_no_function:
  "off_root h v rs \<Longrightarrow> getParentFunctionIdentifier h v = Some (Inl TypeError)"
  unfolding getParentFunctionIdentifier_def
  using closestFunction_off_root [of h v rs] by (auto simp: bindE_def)

text \<open>
  Claim C1 says that \<^verbatim>\<open>getParentFunctionIdentifier\<close> returns \<^verbatim>\<open>null\<close> for a node with no
  function among its ancestors. It does not: in the program \<^verbatim>\<open>a.b.c(x);\<close> the walk from
  the identifier \<^verbatim>\<open>x\<close> passes the call, the statement and the program and ends with
  \<^verbatim>\<open>func\<close> being \<^verbatim>\<open>null\<close>, and the read of \<^verbatim>\<open>func.id\<close> that follows throws a
  \<^verbatim>\<open>TypeError\<close>.
\<close>

theorem getParentFunctionIdentifier_off_root:
  "off_root prog_chain (Ref 6) [6, 0, 7, 8] \<and>
   closestFunction prog_chain (Ref 6) = Some (Inr Null) \<and>
   getParentFunctionIdentifier prog_chain (Ref 6) = Some (Inl TypeError)"
  by (simp add: getParentFunctionIdentifier_def closestFunction.simps bindE_def
      is_function_type_def prog_chain_def example_defs)

text \<open>
  Claim C5. When the walk along \<^verbatim>\<open>parent\<close> links from \<open>v\<close> reaches the function node \<open>f\<close>,
  \<^verbatim>\<open>getParentFunctionIdentifier\<close> returns the \<^verbatim>\<open>id\<close> of \<open>f\<close> if it has one; otherwise
  the \<^verbatim>\<open>id\<close> of the parent of \<open>f\<close> when that is a \<^verbatim>\<open>VariableDeclarator\<close>, the \<^verbatim>\<open>left\<close> of
  the parent when that is an \<^verbatim>\<open>AssignmentExpression\<close>, and \<^verbatim>\<open>null\<close> in every other case.
\<close>

theorem getParentFunctionIdentifier_found:
  assumes "ancestors_to h v rs f"
  shows "getParentFunctionIdentifier h v =
     Some (Inr (if truthy (node_id (h f)) then node_id (h f)
                else case parent (h f) of
                       Ref p \<Rightarrow>
                         if node_type (h p) = Str ''VariableDeclarator'' then node_id (h p)
                         else if node_type (h p) = Str ''AssignmentExpression'' then left (h p)
                         else Null
                     | _ \<Rightarrow> Null))"
  using getParentFunctionIdentifier_ancestors [OF assms] by (simp add: function_name_def)

text \<open>
  From inside \<^verbatim>\<open>function foo() { y; }\<close> the result is the identifier \<^verbatim>\<open>foo\<close>; from inside
  \<^verbatim>\<open>var bar = function () { z; }\<close> it is the identifier \<^verbatim>\<open>bar\<close>; from inside
  \<^verbatim>\<open>a.b = function () { w; }\<close> it is the left side of the assignment.
\<close>

theorem getParentFunctionIdentifier_found_witness:
  "ancestors_to prog_decl (Ref 4) [4, 3, 2] 0 \<and>
   getParentFunctionIdentifier prog_decl (Ref 4) = Some (Inr (Ref 1)) \<and>
   prog_decl 1 = Identifier ''foo'' (Ref 0) \<and>
   ancestors_to prog_var (Ref 6) [6, 5, 4] 3 \<and>
   getParentFunctionIdentifier prog_var (Ref 6) = Some (Inr (Ref 2)) \<and>
   prog_var 2 = Identifier ''bar'' (Ref 1) \<and>
   ancestors_to prog_assign (Ref 8) [8, 7, 6] 5 \<and>
   getParentFunctionIdentifier prog_assign (Ref 8) = Some (Inr (left (prog_assign 1)))"
proof -
  have a: "ancestors_to prog_decl (Ref 4) [4, 3, 2] 0"
    by (simp add: prog_decl_def example_defs is_function_type_def)
  have b: "ancestors_to prog_var (Ref 6) [6, 5, 4] 3"
    by (simp add: prog_var_def example_defs is_function_type_def)
  have c: "ancestors_to prog_assign (Ref 8) [8, 7, 6] 5"
    by (simp add: prog_assign_def example_defs is_function_type_def)
  show ?thesis
    using a b c getParentFunctionIdentifier_found [OF a] getParentFunctionIdentifier_found [OF b]
      getParentFunctionIdentifier_found [OF c]
    by (simp add: prog_decl_def prog_var_def prog_assign_def example_defs)
qed





text \<open>
  Claim C10. The loop tests the node it is given before it follows any \<^verbatim>\<open>parent\<close> link:
  when the node \<open>r\<close> is itself a function, the loop stops at \<open>r\<close>, and the result is the
  name of \<open>r\<close> (its own \<^verbatim>\<open>id\<close>, or the \<^verbatim>\<open>id\<close> of the declarator or the \<^verbatim>\<open>left\<close> of the
  assignment that is its own parent), not that of a function around \<open>r\<close>.
\<close>

theorem getParentFunctionIdentifier_starts_at_node:
  assumes "is_function_type (node_type (h r))"
  shows "closestFunction h (Ref r) = Some (Inr (Ref r)) \<and>
         getParentFunctionIdentifier h (Ref r) =
           Some (Inr (if truthy (node_id (h r)) then node_id (h r)
                      else case parent (h r) of
                             Ref p \<Rightarrow>
                               if node_type (h p) = Str ''VariableDeclarator'' then node_id (h p)
                               else if node_type (h p) = Str ''AssignmentExpression''
                                    then left (h p)
                               else Null
                           | _ \<Rightarrow> Null))"
proof -
  have "ancestors_to h (Ref r) [] r" using assms by simp
  then show ?thesis
    using closestFunction_ancestors [of h "Ref r" "[]" r]
      getParentFunctionIdentifier_ancestors [of h "Ref r" "[]" r]
    by (simp add: function_name_def)
qed

text \<open>
  In \<^verbatim>\<open>function outer() { var inner = function () { }; }\<close> the anonymous function, given
  as the node itself, is named \<^verbatim>\<open>inner\<close>, not \<^verbatim>\<open>outer\<close>.
\<close>

theorem getParentFunctionIdentifier_starts_at_node_witness:
  "is_function_type (node_type (prog_nested 6)) \<and>
   closestFunction prog_nested (Ref 6) = Some (Inr (Ref 6)) \<and>
   getParentFunctionIdentifier prog_nested (Ref 6) = Some (Inr (Ref 5)) \<and>
   prog_nested 5 = Identifier ''inner'' (Ref 4)"
proof -
  have a: "is_function_type (node_type (prog_nested 6))"
    by (simp add: prog_nested_def example_defs is_function_type_def)
  show ?thesis
    using a getParentFunctionIdentifier_starts_at_node [of prog_nested 6]
    by (simp add: prog_nested_def example_defs)
qed

end
